theory Spec2Isabelle
  imports Complex_Main "HOL-Library.Sublist" "HOL-Library.AList"
begin

section \<open>Python values and the built-in operations the client uses\<close>

text \<open>
  The client (\<^verbatim>\<open>eink_client/main.py\<close>) handles whatever \<^verbatim>\<open>response.json()\<close> returns:
  \<^verbatim>\<open>None\<close>, a boolean, a number, a string, a list or a dict with string keys.
  \<^verbatim>\<open>None\<close> is also what \<^verbatim>\<open>fetch_data\<close> returns when the request failed, so absence
  is the value \<open>PNone\<close>. A dict is an association list read with \<open>map_of\<close>; a float is
  the number it denotes (the program only tests it against zero and prints it).
\<close>

datatype pyval =
    PNone
  | PBool bool
  | PInt int
  | PFloat real
  | PStr string
  | PList "pyval list"
  | PDict "(string \<times> pyval) list"

text \<open>
  What an operation of the loop body can raise outside any \<^verbatim>\<open>try\<close>. \<open>Propagated\<close> is an
  exception that \<^verbatim>\<open>except Exception\<close> does not catch.
\<close>

datatype fault = KeyError string | TypeError | AttributeError | Propagated string

text \<open>
  What the HTTP library can raise: an instance of \<^verbatim>\<open>Exception\<close> (OSError, ValueError, ...)
  or one that only derives from \<^verbatim>\<open>BaseException\<close> (KeyboardInterrupt, SystemExit). The
  string is what \<^verbatim>\<open>print\<close> shows for it.
\<close>

datatype py_exception = Exception string | NonException string

text \<open>
  A computation that prints lines and then either raises or returns: the lines printed so
  far, one per call of \<^verbatim>\<open>print\<close>, and the outcome.
\<close>

type_synonym 'a io = "string list \<times> (fault + 'a)"

definition io_return :: "'a \<Rightarrow> 'a io" where
  "io_return a = ([], Inr a)"

definition io_print :: "string \<Rightarrow> unit io" where
  "io_print s = ([s], Inr ())"

definition io_lift :: "fault + 'a \<Rightarrow> 'a io" where
  "io_lift r = ([], r)"

definition io_bind :: "'a io \<Rightarrow> ('a \<Rightarrow> 'b io) \<Rightarrow> 'b io" where
  "io_bind m f =
     (case m of
        (out, Inl e) \<Rightarrow> (out, Inl e)
      | (out, Inr a) \<Rightarrow> (case f a of (out', r) \<Rightarrow> (out @ out', r)))"

definition res_bind :: "fault + 'a \<Rightarrow> ('a \<Rightarrow> fault + 'b) \<Rightarrow> fault + 'b" where
  "res_bind r f = (case r of Inl e \<Rightarrow> Inl e | Inr a \<Rightarrow> f a)"

text \<open>\<^verbatim>\<open>bool(v)\<close>, as \<^verbatim>\<open>not data\<close> uses it.\<close>

fun truthy :: "pyval \<Rightarrow> bool" where
  "truthy PNone = False"
| "truthy (PBool b) = b"
| "truthy (PInt i) = (i \<noteq> 0)"
| "truthy (PFloat x) = (x \<noteq> 0)"
| "truthy (PStr s) = (s \<noteq> [])"
| "truthy (PList xs) = (xs \<noteq> [])"
| "truthy (PDict kv) = (kv \<noteq> [])"

text \<open>
  \<^verbatim>\<open>k in v\<close> for a string \<open>k\<close>: key membership in a dict, element membership in a list,
  substring test in a string, TypeError for anything else.
\<close>

fun py_in :: "string \<Rightarrow> pyval \<Rightarrow> fault + bool" where
  "py_in k (PDict kv) = Inr (map_of kv k \<noteq> None)"
| "py_in k (PList xs) = Inr (PStr k \<in> set xs)"
| "py_in k (PStr s) = Inr (sublist k s)"
| "py_in k v = Inl TypeError"

text \<open>
  \<^verbatim>\<open>v[k]\<close> for a string \<open>k\<close>: a dict returns the entry or raises KeyError; a string and a
  list want integer indices, the other values are not subscriptable.
\<close>

fun subscript :: "pyval \<Rightarrow> string \<Rightarrow> fault + pyval" where
  "subscript (PDict kv) k = (case map_of kv k of None \<Rightarrow> Inl (KeyError k) | Some v \<Rightarrow> Inr v)"
| "subscript v k = Inl TypeError"

text \<open>\<^verbatim>\<open>v.get(k, default)\<close>: only a dict has the method.\<close>

fun py_get :: "pyval \<Rightarrow> string \<Rightarrow> pyval \<Rightarrow> fault + pyval" where
  "py_get (PDict kv) k dflt = Inr (case map_of kv k of None \<Rightarrow> dflt | Some v \<Rightarrow> v)"
| "py_get v k dflt = Inl AttributeError"

text \<open>
  The items a \<^verbatim>\<open>for\<close> loop visits: the elements of a list, the characters of a string,
  the keys of a dict; the other values are not iterable.
\<close>

fun py_iter :: "pyval \<Rightarrow> fault + pyval list" where
  "py_iter (PList xs) = Inr xs"
| "py_iter (PStr s) = Inr (map (\<lambda>c. PStr [c]) s)"
| "py_iter (PDict kv) = Inr (map (\<lambda>p. PStr (fst p)) (AList.clearjunk kv))"
| "py_iter v = Inl TypeError"

text \<open>Decimal digits of a number, as \<^verbatim>\<open>str\<close> of an int gives them.\<close>

definition digit_char :: "nat \<Rightarrow> char" where
  "digit_char d = ''0123456789'' ! d"

fun str_nat :: "nat \<Rightarrow> string" where
  "str_nat n = (if n < 10 then [digit_char n] else str_nat (n div 10) @ [digit_char (n mod 10)])"

declare str_nat.simps [simp del]

definition str_int :: "int \<Rightarrow> string" where
  "str_int i = (if i < 0 then CHR ''-'' # str_nat (nat (- i)) else str_nat (nat i))"

text \<open>
  \<^verbatim>\<open>str(v)\<close>, which \<^verbatim>\<open>print\<close> and an f-string field apply. The text of a float, a list or
  a dict is the interpreter's \<^verbatim>\<open>repr\<close>, taken as the parameter \<open>R\<close>.
\<close>

fun py_str :: "(pyval \<Rightarrow> string) \<Rightarrow> pyval \<Rightarrow> string" where
  "py_str R PNone = ''None''"
| "py_str R (PBool b) = (if b then ''True'' else ''False'')"
| "py_str R (PInt i) = str_int i"
| "py_str R (PStr s) = s"
| "py_str R v = R v"

section \<open>The client\<close>

subsection \<open>Configuration\<close>

definition API_URL :: string where
  "API_URL = ''http://YOUR_LOCAL_IP:8080/api/eink/relevant''"

definition DEVICE_TOKEN :: string where
  "DEVICE_TOKEN = ''your_secure_device_token''"

subsection \<open>fetch_data\<close>

text \<open>
  The reply of \<^verbatim>\<open>urequests.get\<close>: its status code and what calling \<^verbatim>\<open>.json()\<close> on it
  gives (the parsed body, or the exception of the parser).
\<close>

record http_response =
  status_code :: int
  json :: "py_exception + pyval"

text \<open>The query string built by the f-string of \<^verbatim>\<open>fetch_data\<close>.\<close>

definition params :: "int \<Rightarrow> string" where
  "params battery_level =
     ''?token='' @ DEVICE_TOKEN @ ''&bat='' @ str_int battery_level @ ''&res=800x600''"

text \<open>
  The handler \<^verbatim>\<open>except Exception as e\<close>: prints and falls through to \<^verbatim>\<open>return None\<close>;
  an exception outside \<^verbatim>\<open>Exception\<close> is not caught.
\<close>

definition except_Exception :: "py_exception \<Rightarrow> pyval io" where
  "except_Exception e =
     (case e of
        Exception d \<Rightarrow> ([''Request failed: '' @ d], Inr PNone)
      | NonException d \<Rightarrow> ([], Inl (Propagated d)))"

text \<open>
  \<^verbatim>\<open>fetch_data(battery_level)\<close>. The network is the parameter \<open>get\<close>: what
  \<^verbatim>\<open>urequests.get\<close> does for a URL, raise or reply.
\<close>

definition fetch_data :: "(string \<Rightarrow> py_exception + http_response) \<Rightarrow> int \<Rightarrow> pyval io" where
  "fetch_data get battery_level =
     (case get (API_URL @ params battery_level) of
        Inl e \<Rightarrow> except_Exception e
      | Inr response \<Rightarrow>
          if status_code response = 200 then
            (case json response of
               Inl e \<Rightarrow> except_Exception e
             | Inr body \<Rightarrow> io_return body)
          else
            ([''Error: Status code '' @ str_int (status_code response)], Inr PNone))"

subsection \<open>display_data\<close>

text \<open>The body of the \<^verbatim>\<open>for task in ...\<close> loop, over the items still to visit.\<close>

fun print_tasks :: "(pyval \<Rightarrow> string) \<Rightarrow> pyval list \<Rightarrow> unit io" where
  "print_tasks R [] = io_return ()"
| "print_tasks R (task # rest) =
     io_bind (io_lift (subscript task ''priority'')) (\<lambda>priority.
     io_bind (io_lift (subscript task ''title'')) (\<lambda>title.
     io_bind (io_print (''- ['' @ py_str R priority @ ''] '' @ py_str R title)) (\<lambda>_.
     print_tasks R rest)))"

definition display_data :: "(pyval \<Rightarrow> string) \<Rightarrow> pyval \<Rightarrow> unit io" where
  "display_data R data =
     (if \<not> truthy data then io_return ()
      else
        io_bind (io_lift (py_in ''data'' data)) (\<lambda>has_data.
        if \<not> has_data then io_return ()
        else
          io_bind (io_print ''--- E-Ink Update ---'') (\<lambda>_.
          io_bind (io_lift (res_bind (subscript data ''data'') (\<lambda>d. subscript d ''workspace''))) (\<lambda>workspace.
          io_bind (io_print (''Workspace: '' @ py_str R workspace)) (\<lambda>_.
          io_bind (io_print ''Tasks:'') (\<lambda>_.
          io_bind (io_lift (res_bind (subscript data ''data'') (\<lambda>d. subscript d ''tasks''))) (\<lambda>tasks.
          io_bind (io_lift (py_iter tasks)) (\<lambda>items.
          io_bind (print_tasks R items) (\<lambda>_.
          io_print ''--------------------'')))))))))"

subsection \<open>main\<close>

definition get_battery :: int where
  "get_battery = 85"

text \<open>
  The expression \<^verbatim>\<open>data.get('config', {}).get('refresh_interval', 1800)\<close>.
\<close>

definition wait_time_lookup :: "pyval \<Rightarrow> fault + pyval" where
  "wait_time_lookup data =
     res_bind (py_get data ''config'' (PDict []))
       (\<lambda>config. py_get config ''refresh_interval'' (PInt 1800))"

text \<open>
  One pass through the body of \<^verbatim>\<open>while True\<close>, up to the call of \<^verbatim>\<open>time.sleep\<close>: the
  lines printed and either the fault that ends the process or the value handed to
  \<^verbatim>\<open>time.sleep\<close>.
\<close>

definition main_iteration ::
    "(pyval \<Rightarrow> string) \<Rightarrow> (string \<Rightarrow> py_exception + http_response) \<Rightarrow> pyval io" where
  "main_iteration R get =
     (let bat = get_battery in
      io_bind (fetch_data get bat) (\<lambda>data.
      io_bind (display_data R data) (\<lambda>_.
      io_bind (io_lift (wait_time_lookup data)) (\<lambda>wait_time.
      io_bind (io_print (''Sleeping for '' @ py_str R wait_time @ ''s...'')) (\<lambda>_.
      io_return wait_time)))))"

section \<open>Vocabulary of the properties\<close>

text \<open>A value is a mapping; a value is a mapping that holds the key \<open>k\<close>.\<close>

fun is_dict :: "pyval \<Rightarrow> bool" where
  "is_dict (PDict kv) = True"
| "is_dict v = False"

fun has_key :: "pyval \<Rightarrow> string \<Rightarrow> bool" where
  "has_key (PDict kv) k = (map_of kv k \<noteq> None)"
| "has_key v k = False"

text \<open>The number a string of decimal digits denotes.\<close>

definition decimal_value :: "string \<Rightarrow> nat" where
  "decimal_value s = foldl (\<lambda>n c. 10 * n + (of_char c - 48)) 0 s"

text \<open>
  A stand-in for the interpreter's \<^verbatim>\<open>repr\<close> where the client is run on a concrete
  payload; the payloads used print strings and ints only, which never reach it.
\<close>

definition sample_repr :: "pyval \<Rightarrow> string" where
  "sample_repr v = ''...''"

section \<open>Properties of display_data\<close>

lemmas io_defs = io_bind_def io_lift_def io_print_def io_return_def res_bind_def

lemma subscript_has_key: "(\<exists>v. subscript d k = Inr v) \<longleftrightarrow> has_key d k"
  by (cases d) (auto split: option.splits)

lemma subscript_lacks: "\<not> has_key d k \<Longrightarrow> \<exists>e. subscript d k = Inl e"
  by (cases d) (auto split: option.splits)

text \<open>
  Once the guard has passed on a mapping with the key \<^verbatim>\<open>data\<close>, the function is the
  sequence of its statements over the entry \<open>d\<close>.
\<close>

lemma display_data_with_data:
  "map_of kv ''data'' = Some d \<Longrightarrow>
   display_data R (PDict kv) =
     io_bind (io_print ''--- E-Ink Update ---'') (\<lambda>_.
     io_bind (io_lift (subscript d ''workspace'')) (\<lambda>workspace.
     io_bind (io_print (''Workspace: '' @ py_str R workspace)) (\<lambda>_.
     io_bind (io_print ''Tasks:'') (\<lambda>_.
     io_bind (io_lift (subscript d ''tasks'')) (\<lambda>tasks.
     io_bind (io_lift (py_iter tasks)) (\<lambda>items.
     io_bind (print_tasks R items) (\<lambda>_.
     io_print ''--------------------'')))))))"
  by (cases kv) (auto simp: display_data_def io_defs)

text \<open>The loop prints one line per item, in order, when every item has both keys.\<close>

lemma print_tasks_records:
  "list_all2 (\<lambda>task (priority, title).
      subscript task ''priority'' = Inr priority \<and> subscript task ''title'' = Inr title) tasks pairs \<Longrightarrow>
   print_tasks R tasks =
     (map (\<lambda>(priority, title). ''- ['' @ py_str R priority @ ''] '' @ py_str R title) pairs, Inr ())"
  by (induction tasks pairs rule: list_all2_induct) (auto simp: io_defs)

text \<open>The loop raises when it reaches an item without one of the keys, or earlier.\<close>

lemma print_tasks_faults:
  "task \<in> set items \<Longrightarrow> \<not> has_key task ''priority'' \<or> \<not> has_key task ''title'' \<Longrightarrow>
   \<exists>out e. print_tasks R items = (out, Inl e)"
proof (induction items)
  case Nil
  then show ?case by simp
next
  case (Cons t items)
  show ?case
  proof (cases "has_key t ''priority'' \<and> has_key t ''title''")
    case True
    with Cons.prems have "task \<in> set items" by auto
    from Cons.IH [OF this Cons.prems(2)] obtain out e where "print_tasks R items = (out, Inl e)"
      by blast
    moreover from True obtain p ti
      where "subscript t ''priority'' = Inr p" "subscript t ''title'' = Inr ti"
      using subscript_has_key by blast
    ultimately show ?thesis by (simp add: io_defs)
  next
    case False
    then consider "\<not> has_key t ''priority''" | "has_key t ''priority''" "\<not> has_key t ''title''"
      by blast
    then show ?thesis
    proof cases
      case 1
      then obtain e where "subscript t ''priority'' = Inl e" using subscript_lacks by blast
      then show ?thesis by (simp add: io_defs)
    next
      case 2
      then obtain e p where "subscript t ''title'' = Inl e" "subscript t ''priority'' = Inr p"
        using subscript_lacks subscript_has_key by blast
      then show ?thesis by (simp add: io_defs)
    qed
  qed
qed

text \<open>
  C2. For a fetch result that is a mapping whose \<^verbatim>\<open>data\<close> entry holds a \<^verbatim>\<open>workspace\<close>
  string \<open>W\<close> and a \<^verbatim>\<open>tasks\<close> list of records with the keys \<^verbatim>\<open>priority\<close> and \<^verbatim>\<open>title\<close>,
  \<^verbatim>\<open>display_data\<close> returns normally and prints the banner, the line \<^verbatim>\<open>Workspace: W\<close>, the
  header \<^verbatim>\<open>Tasks:\<close>, then exactly one line \<^verbatim>\<open>- [priority] title\<close> per task in the order
  of the list (none dropped, none reordered), and the closing rule.
\<close>

theorem display_data_renders_tasks:
  assumes "map_of kv ''data'' = Some (PDict d)"
    and "map_of d ''workspace'' = Some (PStr W)"
    and "map_of d ''tasks'' = Some (PList tasks)"
    and "list_all2 (\<lambda>task (priority, title). \<exists>r. task = PDict r \<and>
            map_of r ''priority'' = Some priority \<and> map_of r ''title'' = Some title) tasks pairs"
  shows "display_data R (PDict kv) =
    ([''--- E-Ink Update ---'', ''Workspace: '' @ W, ''Tasks:'']
       @ map (\<lambda>(priority, title). ''- ['' @ py_str R priority @ ''] '' @ py_str R title) pairs
       @ [''--------------------''],
     Inr ())"
proof -
  from assms(4) have "list_all2 (\<lambda>task (priority, title).
      subscript task ''priority'' = Inr priority \<and> subscript task ''title'' = Inr title) tasks pairs"
    by (rule list_all2_mono) auto
  then have "print_tasks R tasks =
     (map (\<lambda>(priority, title). ''- ['' @ py_str R priority @ ''] '' @ py_str R title) pairs, Inr ())"
    by (rule print_tasks_records)
  with assms(1-3) show ?thesis
    by (simp add: display_data_with_data io_defs)
qed

text \<open>The payload of the spec's example: one task, priority \<^verbatim>\<open>high\<close>, title \<^verbatim>\<open>T1\<close>.\<close>

theorem display_data_renders_tasks_witness:
  "display_data sample_repr
     (PDict [(''data'', PDict [(''workspace'', PStr ''W''),
        (''tasks'', PList [PDict [(''priority'', PStr ''high''), (''title'', PStr ''T1'')]])])]) =
   ([''--- E-Ink Update ---'', ''Workspace: W'', ''Tasks:'', ''- [high] T1'',
     ''--------------------''], Inr ())"
  using display_data_renders_tasks [of "[(''data'', PDict [(''workspace'', PStr ''W''),
        (''tasks'', PList [PDict [(''priority'', PStr ''high''), (''title'', PStr ''T1'')]])])]"
      "[(''workspace'', PStr ''W''),
        (''tasks'', PList [PDict [(''priority'', PStr ''high''), (''title'', PStr ''T1'')]])]"
      "''W''" "[PDict [(''priority'', PStr ''high''), (''title'', PStr ''T1'')]]"
      "[(PStr ''high'', PStr ''T1'')]" sample_repr]
  by simp

text \<open>
  C9. For a payload whose \<^verbatim>\<open>data\<close> entry holds a \<^verbatim>\<open>workspace\<close> and the empty list as
  \<^verbatim>\<open>tasks\<close>, \<^verbatim>\<open>display_data\<close> does not fault and prints the banner, the workspace line,
  the header \<^verbatim>\<open>Tasks:\<close> and the closing rule, with no task line between them.
\<close>

theorem display_data_empty_tasks:
  assumes "map_of kv ''data'' = Some (PDict d)"
    and "map_of d ''workspace'' = Some workspace"
    and "map_of d ''tasks'' = Some (PList [])"
  shows "display_data R (PDict kv) =
    ([''--- E-Ink Update ---'', ''Workspace: '' @ py_str R workspace, ''Tasks:'',
      ''--------------------''], Inr ())"
  using assms by (simp add: display_data_with_data io_defs)

theorem display_data_empty_tasks_witness:
  "display_data sample_repr
     (PDict [(''data'', PDict [(''workspace'', PStr ''Home''), (''tasks'', PList [])])]) =
   ([''--- E-Ink Update ---'', ''Workspace: Home'', ''Tasks:'', ''--------------------''], Inr ())"
  using display_data_empty_tasks [of
     "[(''data'', PDict [(''workspace'', PStr ''Home''), (''tasks'', PList [])])]"
     "[(''workspace'', PStr ''Home''), (''tasks'', PList [])]" "PStr ''Home''" sample_repr]
  by simp

text \<open>
  C8. For an input that is a mapping with the key \<^verbatim>\<open>data\<close>, a fault leaves
  \<^verbatim>\<open>display_data\<close> (nothing in it or in \<^verbatim>\<open>main\<close> catches it) whenever the \<^verbatim>\<open>data\<close> entry
  lacks \<^verbatim>\<open>workspace\<close>, or lacks \<^verbatim>\<open>tasks\<close>, or one of the items the loop visits lacks
  \<^verbatim>\<open>priority\<close> or \<^verbatim>\<open>title\<close>.
\<close>

theorem display_data_missing_inner_key:
  assumes "map_of kv ''data'' = Some d"
    and "\<not> has_key d ''workspace'' \<or> \<not> has_key d ''tasks'' \<or>
         (\<exists>tasks items task. subscript d ''tasks'' = Inr tasks \<and> py_iter tasks = Inr items \<and>
            task \<in> set items \<and> (\<not> has_key task ''priority'' \<or> \<not> has_key task ''title''))"
  shows "\<exists>out e. display_data R (PDict kv) = (out, Inl e)"
proof -
  consider (ws) "\<not> has_key d ''workspace''"
    | (ts) "has_key d ''workspace''" "\<not> has_key d ''tasks''"
    | (item) tasks items task where "has_key d ''workspace''" "subscript d ''tasks'' = Inr tasks"
        "py_iter tasks = Inr items" "task \<in> set items"
        "\<not> has_key task ''priority'' \<or> \<not> has_key task ''title''"
    using assms(2) by blast
  then show ?thesis
  proof cases
    case ws
    then obtain e where "subscript d ''workspace'' = Inl e" using subscript_lacks by blast
    with assms(1) show ?thesis by (simp add: display_data_with_data io_defs)
  next
    case ts
    then obtain e w where "subscript d ''tasks'' = Inl e" "subscript d ''workspace'' = Inr w"
      using subscript_lacks subscript_has_key by blast
    with assms(1) show ?thesis by (simp add: display_data_with_data io_defs)
  next
    case item
    from item(1) obtain w where w: "subscript d ''workspace'' = Inr w"
      using subscript_has_key by blast
    from print_tasks_faults [OF item(4,5)] obtain out e where "print_tasks R items = (out, Inl e)"
      by blast
    with assms(1) w item(2,3) show ?thesis by (simp add: display_data_with_data io_defs)
  qed
qed

text \<open>A task without \<^verbatim>\<open>title\<close>, second in the list: the first task is printed, then KeyError.\<close>

theorem display_data_missing_inner_key_witness:
  "display_data sample_repr
     (PDict [(''data'', PDict [(''workspace'', PStr ''W''),
        (''tasks'', PList [PDict [(''priority'', PInt 1), (''title'', PStr ''T1'')],
                           PDict [(''priority'', PInt 2)]])])]) =
   ([''--- E-Ink Update ---'', ''Workspace: W'', ''Tasks:'', ''- [1] T1''], Inl (KeyError ''title''))"
proof -
  let ?t2 = "PDict [(''priority'', PInt 2)]"
  let ?ts = "[PDict [(''priority'', PInt 1), (''title'', PStr ''T1'')], ?t2]"
  let ?d = "PDict [(''workspace'', PStr ''W''), (''tasks'', PList ?ts)]"
  have "\<exists>out e. display_data sample_repr (PDict [(''data'', ?d)]) = (out, Inl e)"
  proof (rule display_data_missing_inner_key [of _ ?d])
    show "map_of [(''data'', ?d)] ''data'' = Some ?d" by simp
    have "subscript ?d ''tasks'' = Inr (PList ?ts) \<and> py_iter (PList ?ts) = Inr ?ts \<and>
          ?t2 \<in> set ?ts \<and> (\<not> has_key ?t2 ''priority'' \<or> \<not> has_key ?t2 ''title'')"
      by simp
    then show "\<not> has_key ?d ''workspace'' \<or> \<not> has_key ?d ''tasks'' \<or>
         (\<exists>tasks items task. subscript ?d ''tasks'' = Inr tasks \<and> py_iter tasks = Inr items \<and>
            task \<in> set items \<and> (\<not> has_key task ''priority'' \<or> \<not> has_key task ''title''))"
      by blast
  qed
  then show ?thesis
    by (simp add: display_data_def io_defs str_int_def str_nat.simps digit_char_def)
qed

subsection \<open>The guard\<close>

lemma io_bind_print_not_silent: "io_bind (io_print s) f \<noteq> ([], r)"
  by (simp add: io_bind_def io_print_def split: prod.splits)

text \<open>
  C7, as amended. \<^verbatim>\<open>display_data\<close> returns without printing and without raising for an
  input that is absent (\<^verbatim>\<open>None\<close>) or is a mapping without the key \<^verbatim>\<open>data\<close>, and
  otherwise only for \<^verbatim>\<open>False\<close>, zero, a string that does not contain \<^verbatim>\<open>data\<close> and a
  list without the element \<^verbatim>\<open>'data'\<close>. Every other input either raises in the guard
  or gets past it and prints the banner.
\<close>

theorem display_data_silent_iff:
  "display_data R data = ([], Inr ()) \<longleftrightarrow>
     (case data of
        PNone \<Rightarrow> True
      | PBool b \<Rightarrow> \<not> b
      | PInt i \<Rightarrow> i = 0
      | PFloat x \<Rightarrow> x = 0
      | PStr s \<Rightarrow> \<not> sublist ''data'' s
      | PList xs \<Rightarrow> PStr ''data'' \<notin> set xs
      | PDict kv \<Rightarrow> map_of kv ''data'' = None)"
proof (cases data)
  case PNone
  then show ?thesis by (simp add: display_data_def io_defs)
next
  case (PBool b)
  then show ?thesis by (simp add: display_data_def io_defs)
next
  case (PInt i)
  then show ?thesis by (simp add: display_data_def io_defs)
next
  case (PFloat x)
  then show ?thesis by (simp add: display_data_def io_defs)
next
  case (PStr s)
  then show ?thesis by (cases s) (simp_all add: display_data_def io_defs)
next
  case (PList xs)
  then show ?thesis by (cases xs) (simp_all add: display_data_def io_defs)
next
  case (PDict kv)
  show ?thesis
  proof (cases "map_of kv ''data''")
    case None
    with PDict show ?thesis by (simp add: display_data_def io_defs)
  next
    case (Some d)
    with PDict show ?thesis
      by (simp add: display_data_with_data io_bind_print_not_silent)
  qed
qed

theorem display_data_silent_iff_witness:
  "display_data sample_repr PNone = ([], Inr ()) \<and>
   display_data sample_repr (PDict [(''config'', PDict [(''refresh_interval'', PInt 60)])]) = ([], Inr ())"
  using display_data_silent_iff [of sample_repr PNone]
    display_data_silent_iff [of sample_repr "PDict [(''config'', PDict [(''refresh_interval'', PInt 60)])]"]
  by simp

text \<open>
  C7 as written speaks of every input that lacks the key. The JSON body \<^verbatim>\<open>5\<close> has no
  such key, is truthy, and the membership test \<^verbatim>\<open>'data' not in 5\<close> raises TypeError.
\<close>

theorem display_data_number_counterexample:
  "\<not> has_key (PInt 5) ''data'' \<and> display_data sample_repr (PInt 5) = ([], Inl TypeError)"
  by (simp add: display_data_def io_defs)

section \<open>Properties of fetch_data\<close>

lemma str_int_upto_100:
  assumes "0 \<le> b" "b \<le> 100"
  shows "str_int b =
    (if b < 10 then [digit_char (nat b)]
     else if b < 100 then [digit_char (nat b div 10), digit_char (nat b mod 10)]
     else ''100'')"
proof -
  consider "b < 10" | "10 \<le> b" "b < 100" | "b = 100" using assms by linarith
  then show ?thesis
  proof cases
    case 1
    with assms show ?thesis by (simp add: str_int_def str_nat.simps [of "nat b"])
  next
    case 2
    then have "nat b div 10 < 10" "\<not> nat b < 10" by auto
    with 2 assms show ?thesis
      by (simp add: str_int_def str_nat.simps [of "nat b"] str_nat.simps [of "nat b div 10"])
  next
    case 3
    then show ?thesis by (simp add: str_int_def str_nat.simps digit_char_def)
  qed
qed

lemma digit_char_value: "d < 10 \<Longrightarrow> of_char (digit_char d) = (48 + d :: nat)"
proof -
  assume "d < 10"
  then have "d \<in> {0, 1, 2, 3, 4, 5, 6, 7, 8, 9}" by auto
  then show ?thesis by (auto simp: digit_char_def)
qed

lemma digit_char_is_digit: "d < 10 \<Longrightarrow> digit_char d \<in> set ''0123456789''"
  unfolding digit_char_def by (intro nth_mem) simp

text \<open>
  C3. For a battery value \<open>b\<close> from 0 to 100, \<^verbatim>\<open>fetch_data\<close> requests exactly one URL and
  its outcome is decided by the reply to it: the configured base URL, \<^verbatim>\<open>?token=\<close> and
  the configured token, \<^verbatim>\<open>&bat=\<close> and the decimal digits of \<open>b\<close>, and the literal
  \<^verbatim>\<open>&res=800x600\<close>. The digits are digit characters whose decimal value is \<open>b\<close>, and
  the token holds no separator \<^verbatim>\<open>&\<close>.
\<close>

theorem fetch_data_request_url:
  assumes "0 \<le> b" and "b \<le> 100"
  shows "let digits =
           (if b < 10 then [digit_char (nat b)]
            else if b < 100 then [digit_char (nat b div 10), digit_char (nat b mod 10)]
            else ''100'')
         in fetch_data get b =
             (case get (API_URL @ ''?token='' @ DEVICE_TOKEN @ ''&bat='' @ digits @ ''&res=800x600'') of
                Inl (Exception d) \<Rightarrow> ([''Request failed: '' @ d], Inr PNone)
              | Inl (NonException d) \<Rightarrow> ([], Inl (Propagated d))
              | Inr response \<Rightarrow>
                  if status_code response = 200 then
                    (case json response of
                       Inl (Exception d) \<Rightarrow> ([''Request failed: '' @ d], Inr PNone)
                     | Inl (NonException d) \<Rightarrow> ([], Inl (Propagated d))
                     | Inr body \<Rightarrow> ([], Inr body))
                  else ([''Error: Status code '' @ str_int (status_code response)], Inr PNone))
          \<and> set digits \<subseteq> set ''0123456789''
          \<and> decimal_value digits = nat b
          \<and> CHR ''&'' \<notin> set DEVICE_TOKEN"
proof -
  have units: "nat b mod 10 < 10" by simp
  have tens: "nat b div 10 < 10" if "b < 100" using that by auto
  have single: "nat b < 10" if "b < 10" using that by auto
  have url: "API_URL @ params b =
      API_URL @ ''?token='' @ DEVICE_TOKEN @ ''&bat='' @
        (if b < 10 then [digit_char (nat b)]
         else if b < 100 then [digit_char (nat b div 10), digit_char (nat b mod 10)]
         else ''100'') @ ''&res=800x600''"
    unfolding params_def str_int_upto_100 [OF assms] by simp
  have fetch: "fetch_data get b =
      (case get (API_URL @ params b) of
         Inl (Exception d) \<Rightarrow> ([''Request failed: '' @ d], Inr PNone)
       | Inl (NonException d) \<Rightarrow> ([], Inl (Propagated d))
       | Inr response \<Rightarrow>
           if status_code response = 200 then
             (case json response of
                Inl (Exception d) \<Rightarrow> ([''Request failed: '' @ d], Inr PNone)
              | Inl (NonException d) \<Rightarrow> ([], Inl (Propagated d))
              | Inr body \<Rightarrow> ([], Inr body))
           else ([''Error: Status code '' @ str_int (status_code response)], Inr PNone))"
    by (simp add: fetch_data_def except_Exception_def io_return_def
        split: sum.splits py_exception.splits)
  have digits: "set (if b < 10 then [digit_char (nat b)]
         else if b < 100 then [digit_char (nat b div 10), digit_char (nat b mod 10)]
         else ''100'') \<subseteq> set ''0123456789''"
    using digit_char_is_digit [OF units] digit_char_is_digit [OF tens]
      digit_char_is_digit [OF single]
    by (simp del: set_simps add: subset_iff) auto
  have "nat b div 10 * 10 + nat b mod 10 = nat b" by simp
  then have "10 * (nat b div 10) + nat b mod 10 = nat b" by (simp add: mult.commute)
  then have val: "decimal_value (if b < 10 then [digit_char (nat b)]
         else if b < 100 then [digit_char (nat b div 10), digit_char (nat b mod 10)]
         else ''100'') = nat b"
    using digit_char_value [OF units] digit_char_value [OF tens] digit_char_value [OF single] assms
    by (auto simp: decimal_value_def)
  have "CHR ''&'' \<notin> set DEVICE_TOKEN" by (simp add: DEVICE_TOKEN_def)
  with fetch digits val show ?thesis
    unfolding Let_def url by blast
qed

text \<open>
  Battery 85, with a network that replies 200 to the literal URL
  \<^verbatim>\<open>...?token=your_secure_device_token&bat=85&res=800x600\<close> and refuses every other.
\<close>

theorem fetch_data_request_url_witness:
  "fetch_data
     (\<lambda>url. if url = ''http://YOUR_LOCAL_IP:8080/api/eink/relevant?token=your_secure_device_token&bat=85&res=800x600''
        then Inr \<lparr>status_code = 200, json = Inr (PDict [(''config'', PDict [])])\<rparr>
        else Inl (Exception ''not found'')) 85 =
   ([], Inr (PDict [(''config'', PDict [])]))"
  using fetch_data_request_url [of 85
     "\<lambda>url. if url = ''http://YOUR_LOCAL_IP:8080/api/eink/relevant?token=your_secure_device_token&bat=85&res=800x600''
        then Inr \<lparr>status_code = 200, json = Inr (PDict [(''config'', PDict [])])\<rparr>
        else Inl (Exception ''not found'')"]
  by (simp add: Let_def API_URL_def DEVICE_TOKEN_def digit_char_def)

text \<open>
  C5. When the reply has a status code other than 200, \<^verbatim>\<open>fetch_data\<close> prints the line
  \<^verbatim>\<open>Error: Status code\<close> with the code and returns \<^verbatim>\<open>None\<close>, whatever the body holds; the
  renderer called on that result prints nothing more.
\<close>

theorem fetch_data_non_200:
  assumes "get (API_URL @ params b) = Inr response"
    and "status_code response \<noteq> 200"
  shows "fetch_data get b = ([''Error: Status code '' @ str_int (status_code response)], Inr PNone)
    \<and> io_bind (fetch_data get b) (display_data R) =
        ([''Error: Status code '' @ str_int (status_code response)], Inr ())"
  using assms by (simp add: fetch_data_def display_data_def io_defs)

theorem fetch_data_non_200_witness:
  "fetch_data (\<lambda>url. Inr \<lparr>status_code = 404, json = Inr (PDict [(''data'', PDict [])])\<rparr>) 85 =
     ([''Error: Status code 404''], Inr PNone) \<and>
   io_bind (fetch_data (\<lambda>url. Inr \<lparr>status_code = 404, json = Inr (PDict [(''data'', PDict [])])\<rparr>) 85)
     (display_data sample_repr) = ([''Error: Status code 404''], Inr ())"
proof -
  let ?response = "\<lparr>status_code = 404, json = Inr (PDict [(''data'', PDict [])])\<rparr>"
  let ?get = "\<lambda>url :: string. Inr ?response :: py_exception + http_response"
  have line: "''Error: Status code '' @ str_int (status_code ?response) = ''Error: Status code 404''"
    by (simp add: str_int_def str_nat.simps digit_char_def)
  have "fetch_data ?get 85 =
      ([''Error: Status code '' @ str_int (status_code ?response)], Inr PNone) \<and>
    io_bind (fetch_data ?get 85) (display_data sample_repr) =
      ([''Error: Status code '' @ str_int (status_code ?response)], Inr ())"
    by (rule fetch_data_non_200) simp_all
  then show ?thesis unfolding line .
qed

text \<open>
  C6. When the request raises an exception (an instance of \<^verbatim>\<open>Exception\<close>), or a reply
  with status 200 raises one while its body is parsed, \<^verbatim>\<open>fetch_data\<close> prints
  \<^verbatim>\<open>Request failed:\<close> with the exception's text and returns \<^verbatim>\<open>None\<close>: the result is a
  value, not a fault.
\<close>

theorem fetch_data_catches_exception:
  assumes "get (API_URL @ params b) = Inl (Exception d) \<or>
    (\<exists>response. get (API_URL @ params b) = Inr response \<and> status_code response = 200 \<and>
       json response = Inl (Exception d))"
  shows "fetch_data get b = ([''Request failed: '' @ d], Inr PNone)"
  using assms by (auto simp: fetch_data_def except_Exception_def)

theorem fetch_data_catches_exception_witness:
  "fetch_data (\<lambda>url. Inl (Exception ''[Errno 111] ECONNREFUSED'')) 85 =
     ([''Request failed: [Errno 111] ECONNREFUSED''], Inr PNone) \<and>
   fetch_data (\<lambda>url. Inr \<lparr>status_code = 200, json = Inl (Exception ''syntax error in JSON'')\<rparr>) 85 =
     ([''Request failed: syntax error in JSON''], Inr PNone)"
  using fetch_data_catches_exception [of "\<lambda>url. Inl (Exception ''[Errno 111] ECONNREFUSED'')" 85
      "''[Errno 111] ECONNREFUSED''"]
    fetch_data_catches_exception [of
      "\<lambda>url. Inr \<lparr>status_code = 200, json = Inl (Exception ''syntax error in JSON'')\<rparr>" 85
      "''syntax error in JSON''"]
  by simp

section \<open>Properties of the loop body\<close>

text \<open>The lookup on a mapping, by its \<^verbatim>\<open>config\<close> entry; on anything else it raises.\<close>

lemma wait_time_lookup_dict:
  "wait_time_lookup (PDict kv) =
     (case map_of kv ''config'' of
        None \<Rightarrow> Inr (PInt 1800)
      | Some config \<Rightarrow> py_get config ''refresh_interval'' (PInt 1800))"
  by (simp add: wait_time_lookup_def res_bind_def split: option.splits)

lemma wait_time_lookup_not_dict: "\<not> is_dict data \<Longrightarrow> wait_time_lookup data = Inl AttributeError"
  by (cases data) (simp_all add: wait_time_lookup_def res_bind_def)

lemma py_get_attribute_error_iff: "py_get v k dflt = Inl AttributeError \<longleftrightarrow> \<not> is_dict v"
  by (cases v) simp_all

lemma py_get_fault_iff: "(\<exists>e. py_get v k dflt = Inl e) \<longleftrightarrow> \<not> is_dict v"
  by (cases v) simp_all

text \<open>The body of the loop after the fetch, by the outcome of each statement.\<close>

lemma main_iteration_after_fetch:
  "fetch_data get get_battery = (logged, Inr data) \<Longrightarrow>
   main_iteration R get =
     (case display_data R data of
        (out, Inl e) \<Rightarrow> (logged @ out, Inl e)
      | (out, Inr u) \<Rightarrow>
          (case wait_time_lookup data of
             Inl e \<Rightarrow> (logged @ out, Inl e)
           | Inr wait_time \<Rightarrow>
               (logged @ out @ [''Sleeping for '' @ py_str R wait_time @ ''s...''], Inr wait_time)))"
  by (simp add: main_iteration_def io_defs split: prod.splits sum.splits)

text \<open>
  C1, as amended. The sleep-duration lookup raises (AttributeError) exactly when the fetch
  result is not a mapping, which includes the absent result \<^verbatim>\<open>None\<close>, or is a mapping
  whose \<^verbatim>\<open>config\<close> entry is present and is not a mapping. An iteration whose fetch
  yields \<^verbatim>\<open>None\<close> prints what the fetch logged and ends in that fault.
\<close>

theorem wait_time_lookup_faults_iff:
  "(wait_time_lookup data = Inl AttributeError \<longleftrightarrow>
      (\<not> is_dict data \<or>
       (\<exists>kv config. data = PDict kv \<and> map_of kv ''config'' = Some config \<and> \<not> is_dict config)))
   \<and> ((\<exists>e. wait_time_lookup data = Inl e) \<longleftrightarrow>
      (\<not> is_dict data \<or>
       (\<exists>kv config. data = PDict kv \<and> map_of kv ''config'' = Some config \<and> \<not> is_dict config)))
   \<and> wait_time_lookup PNone = Inl AttributeError
   \<and> (fetch_data get get_battery = (logged, Inr PNone) \<longrightarrow>
        main_iteration R get = (logged, Inl AttributeError))"
proof (intro conjI impI)
  show "wait_time_lookup data = Inl AttributeError \<longleftrightarrow>
      (\<not> is_dict data \<or>
       (\<exists>kv config. data = PDict kv \<and> map_of kv ''config'' = Some config \<and> \<not> is_dict config))"
  proof (cases "is_dict data")
    case False
    then show ?thesis by (simp add: wait_time_lookup_not_dict)
  next
    case True
    then obtain kv where kv: "data = PDict kv" by (cases data) auto
    show ?thesis
    proof (cases "map_of kv ''config''")
      case None
      with kv show ?thesis by (simp add: wait_time_lookup_dict)
    next
      case (Some config)
      with kv show ?thesis by (simp add: wait_time_lookup_dict py_get_attribute_error_iff)
    qed
  qed
  show "(\<exists>e. wait_time_lookup data = Inl e) \<longleftrightarrow>
      (\<not> is_dict data \<or>
       (\<exists>kv config. data = PDict kv \<and> map_of kv ''config'' = Some config \<and> \<not> is_dict config))"
  proof (cases "is_dict data")
    case False
    then show ?thesis by (simp add: wait_time_lookup_not_dict)
  next
    case True
    then obtain kv where kv: "data = PDict kv" by (cases data) auto
    show ?thesis
    proof (cases "map_of kv ''config''")
      case None
      with kv show ?thesis by (simp add: wait_time_lookup_dict)
    next
      case (Some config)
      with kv show ?thesis by (simp add: wait_time_lookup_dict py_get_fault_iff)
    qed
  qed
  show none: "wait_time_lookup PNone = Inl AttributeError"
    by (simp add: wait_time_lookup_not_dict)
  assume "fetch_data get get_battery = (logged, Inr PNone)"
  then show "main_iteration R get = (logged, Inl AttributeError)"
    by (simp add: main_iteration_after_fetch none display_data_def io_defs)
qed

text \<open>An unreachable server: the fetch logs the failure, the lookup ends the process.\<close>

theorem wait_time_lookup_faults_iff_witness:
  "(\<exists>e. wait_time_lookup PNone = Inl e) \<and>
   main_iteration sample_repr (\<lambda>url. Inl (Exception ''[Errno 113] EHOSTUNREACH'')) =
     ([''Request failed: [Errno 113] EHOSTUNREACH''], Inl AttributeError)"
proof -
  let ?get = "\<lambda>url :: string. Inl (Exception ''[Errno 113] EHOSTUNREACH'') :: py_exception + http_response"
  let ?lines = "[''Request failed: [Errno 113] EHOSTUNREACH'']"
  have fetched: "fetch_data ?get get_battery = (?lines, Inr PNone)"
    by (simp add: fetch_data_def except_Exception_def)
  have "(\<exists>e. wait_time_lookup PNone = Inl e) \<and>
      (fetch_data ?get get_battery = (?lines, Inr PNone) \<longrightarrow>
       main_iteration sample_repr ?get = (?lines, Inl AttributeError))"
    using wait_time_lookup_faults_iff [of PNone ?get ?lines sample_repr] by simp
  with fetched show ?thesis by blast
qed

text \<open>
  C1 as written says the lookup does not fault on any payload. The body
  \<^verbatim>\<open>{"config": null}\<close> is a payload, and \<^verbatim>\<open>None.get\<close> raises.
\<close>

theorem wait_time_lookup_null_config_counterexample:
  "PDict [(''config'', PNone)] \<noteq> PNone \<and>
   wait_time_lookup (PDict [(''config'', PNone)]) = Inl AttributeError"
  by (simp add: wait_time_lookup_def res_bind_def)

text \<open>
  C4, as amended. For a fetched payload that is a mapping, the sleep duration looked up is
  the payload's \<^verbatim>\<open>config.refresh_interval\<close> when \<^verbatim>\<open>config\<close> is a mapping holding that
  field, and the default 1800 when \<^verbatim>\<open>config\<close> is absent or is a mapping without the
  field; once rendering has returned, the value looked up is the one handed to
  \<^verbatim>\<open>time.sleep\<close>.
\<close>

theorem wait_time_lookup_value:
  "(map_of kv ''config'' = Some (PDict config) \<and> map_of config ''refresh_interval'' = Some v \<longrightarrow>
      wait_time_lookup (PDict kv) = Inr v)
   \<and> (map_of kv ''config'' = None \<or>
        (\<exists>config. map_of kv ''config'' = Some (PDict config) \<and>
           map_of config ''refresh_interval'' = None) \<longrightarrow>
      wait_time_lookup (PDict kv) = Inr (PInt 1800))
   \<and> (fetch_data get get_battery = (logged, Inr data) \<and> display_data R data = (out, Inr ()) \<and>
        wait_time_lookup data = Inr wait_time \<longrightarrow>
      main_iteration R get =
        (logged @ out @ [''Sleeping for '' @ py_str R wait_time @ ''s...''], Inr wait_time))"
  by (auto simp: main_iteration_after_fetch wait_time_lookup_dict)

text \<open>
  The spec's body \<^verbatim>\<open>{"config":{"refresh_interval":60}}\<close> sleeps 60; a body without
  \<^verbatim>\<open>config\<close> is rendered and sleeps 1800.
\<close>

theorem wait_time_lookup_value_witness:
  "main_iteration sample_repr (\<lambda>url. Inr \<lparr>status_code = 200,
       json = Inr (PDict [(''config'', PDict [(''refresh_interval'', PInt 60)])])\<rparr>) =
     ([''Sleeping for 60s...''], Inr (PInt 60)) \<and>
   main_iteration sample_repr (\<lambda>url. Inr \<lparr>status_code = 200,
       json = Inr (PDict [(''data'', PDict [(''workspace'', PStr ''W''), (''tasks'', PList [])])])\<rparr>) =
     ([''--- E-Ink Update ---'', ''Workspace: W'', ''Tasks:'', ''--------------------'',
       ''Sleeping for 1800s...''], Inr (PInt 1800))"
proof -
  let ?config = "[(''refresh_interval'', PInt 60)]"
  let ?kv1 = "[(''config'', PDict ?config)]"
  let ?get1 = "\<lambda>url :: string. Inr \<lparr>status_code = 200, json = Inr (PDict ?kv1)\<rparr>
      :: py_exception + http_response"
  let ?kv2 = "[(''data'', PDict [(''workspace'', PStr ''W''), (''tasks'', PList [])])]"
  let ?get2 = "\<lambda>url :: string. Inr \<lparr>status_code = 200, json = Inr (PDict ?kv2)\<rparr>
      :: py_exception + http_response"
  let ?out2 = "[''--- E-Ink Update ---'', ''Workspace: W'', ''Tasks:'', ''--------------------'']"
  have sixty: "str_int 60 = ''60''" and default: "str_int 1800 = ''1800''"
    by (simp_all add: str_int_def str_nat.simps digit_char_def)
  have f1: "fetch_data ?get1 get_battery = ([], Inr (PDict ?kv1))"
    by (simp add: fetch_data_def io_defs)
  have d1: "display_data sample_repr (PDict ?kv1) = ([], Inr ())"
    by (simp add: display_data_def io_defs)
  have f2: "fetch_data ?get2 get_battery = ([], Inr (PDict ?kv2))"
    by (simp add: fetch_data_def io_defs)
  have d2: "display_data sample_repr (PDict ?kv2) = (?out2, Inr ())"
    by (simp add: display_data_def io_defs)
  have w1: "wait_time_lookup (PDict ?kv1) = Inr (PInt 60)"
    using wait_time_lookup_value [of ?kv1 ?config "PInt 60"] by simp
  have w2: "wait_time_lookup (PDict ?kv2) = Inr (PInt 1800)"
    using wait_time_lookup_value [of ?kv2] by simp
  have "main_iteration sample_repr ?get1 = ([''Sleeping for 60s...''], Inr (PInt 60))"
    using wait_time_lookup_value [of _ _ _ ?get1 "[]" "PDict ?kv1" sample_repr "[]" "PInt 60"] f1 d1 w1
    by (simp add: sixty)
  moreover have "main_iteration sample_repr ?get2 =
      (?out2 @ [''Sleeping for 1800s...''], Inr (PInt 1800))"
    using wait_time_lookup_value [of _ _ _ ?get2 "[]" "PDict ?kv2" sample_repr ?out2 "PInt 1800"] f2 d2 w2
    by (simp add: default)
  ultimately show ?thesis by simp
qed

text \<open>
  C4 as written promises 1800 whenever \<^verbatim>\<open>refresh_interval\<close> is absent. In the body
  \<^verbatim>\<open>{"config": 30}\<close> it is absent, and the iteration ends in AttributeError instead.
\<close>

theorem main_iteration_scalar_config_counterexample:
  "\<not> has_key (PInt 30) ''refresh_interval'' \<and>
   main_iteration sample_repr (\<lambda>url. Inr \<lparr>status_code = 200,
       json = Inr (PDict [(''config'', PInt 30)])\<rparr>) = ([], Inl AttributeError)"
  by (simp add: main_iteration_def fetch_data_def display_data_def wait_time_lookup_def io_defs)

text \<open>
  C10, as amended. For a fetch result that is a mapping without the key \<^verbatim>\<open>data\<close> and
  whose \<^verbatim>\<open>config\<close> entry is absent or is itself a mapping, the iteration reaches
  \<^verbatim>\<open>time.sleep\<close> without fault: rendering prints nothing, the lookup succeeds with the
  configured or the default interval, and only the line \<^verbatim>\<open>Sleeping for ...\<close> is added.
  The lookup raises for the absent result \<^verbatim>\<open>None\<close>, and also for a mapping whose
  \<^verbatim>\<open>config\<close> entry is present and is not a mapping.
\<close>

theorem main_iteration_without_data:
  assumes "fetch_data get get_battery = (logged, Inr (PDict kv))"
    and "map_of kv ''data'' = None"
    and "map_of kv ''config'' = None \<or> (\<exists>config. map_of kv ''config'' = Some (PDict config))"
  shows "display_data R (PDict kv) = ([], Inr ())
    \<and> (\<exists>wait_time.
          wait_time_lookup (PDict kv) = Inr wait_time
        \<and> wait_time =
            (case map_of kv ''config'' of
               Some (PDict config) \<Rightarrow>
                 (case map_of config ''refresh_interval'' of Some v \<Rightarrow> v | None \<Rightarrow> PInt 1800)
             | _ \<Rightarrow> PInt 1800)
        \<and> main_iteration R get =
            (logged @ [''Sleeping for '' @ py_str R wait_time @ ''s...''], Inr wait_time))
    \<and> wait_time_lookup PNone = Inl AttributeError
    \<and> (\<forall>kv' config. map_of kv' ''config'' = Some config \<and> \<not> is_dict config \<longrightarrow>
          wait_time_lookup (PDict kv') = Inl AttributeError)"
proof -
  have silent: "display_data R (PDict kv) = ([], Inr ())"
    using assms(2) by (simp add: display_data_def io_defs)
  have sleeps: "\<exists>wait_time.
          wait_time_lookup (PDict kv) = Inr wait_time
        \<and> wait_time =
            (case map_of kv ''config'' of
               Some (PDict config) \<Rightarrow>
                 (case map_of config ''refresh_interval'' of Some v \<Rightarrow> v | None \<Rightarrow> PInt 1800)
             | _ \<Rightarrow> PInt 1800)
        \<and> main_iteration R get =
            (logged @ [''Sleeping for '' @ py_str R wait_time @ ''s...''], Inr wait_time)"
    using assms(3)
  proof
    assume "map_of kv ''config'' = None"
    with assms(1) silent show ?thesis
      by (simp add: main_iteration_after_fetch wait_time_lookup_dict)
  next
    assume "\<exists>config. map_of kv ''config'' = Some (PDict config)"
    then obtain config where "map_of kv ''config'' = Some (PDict config)" by blast
    with assms(1) silent show ?thesis
      by (simp add: main_iteration_after_fetch wait_time_lookup_dict split: option.splits)
  qed
  have absent: "wait_time_lookup PNone = Inl AttributeError"
    by (simp add: wait_time_lookup_not_dict)
  have other: "\<forall>kv' config. map_of kv' ''config'' = Some config \<and> \<not> is_dict config \<longrightarrow>
          wait_time_lookup (PDict kv') = Inl AttributeError"
    by (simp add: wait_time_lookup_dict py_get_attribute_error_iff)
  from silent sleeps absent other show ?thesis by (intro conjI)
qed

theorem main_iteration_without_data_witness:
  "main_iteration sample_repr (\<lambda>url. Inr \<lparr>status_code = 200,
       json = Inr (PDict [(''status'', PStr ''idle'')])\<rparr>) =
     ([''Sleeping for 1800s...''], Inr (PInt 1800))"
proof -
  let ?kv = "[(''status'', PStr ''idle'')]"
  let ?get = "\<lambda>url :: string. Inr \<lparr>status_code = 200, json = Inr (PDict ?kv)\<rparr>
      :: py_exception + http_response"
  have f: "fetch_data ?get get_battery = ([], Inr (PDict ?kv))"
    by (simp add: fetch_data_def io_defs)
  have default: "str_int 1800 = ''1800''"
    by (simp add: str_int_def str_nat.simps digit_char_def)
  from main_iteration_without_data [OF f, of sample_repr] show ?thesis
    by (simp add: default)
qed

text \<open>
  C10 as written covers every mapping without the key \<^verbatim>\<open>data\<close>. The body
  \<^verbatim>\<open>{"status": "idle", "config": null}\<close> is one: rendering is skipped, then the lookup
  raises, although the fetch result is not absent.
\<close>

theorem main_iteration_null_config_counterexample:
  "is_dict (PDict [(''status'', PStr ''idle''), (''config'', PNone)]) \<and>
   \<not> has_key (PDict [(''status'', PStr ''idle''), (''config'', PNone)]) ''data'' \<and>
   main_iteration sample_repr (\<lambda>url. Inr \<lparr>status_code = 200,
       json = Inr (PDict [(''status'', PStr ''idle''), (''config'', PNone)])\<rparr>) =
     ([], Inl AttributeError)"
  by (simp add: main_iteration_def fetch_data_def display_data_def wait_time_lookup_def io_defs)

end
